theory Spec2Isabelle
  imports Complex_Main "HOL-Library.Sublist"
begin

section \<open>Python values shared by the three routers\<close>

text \<open>
  A Python \<open>str\<close> is modelled as a \<open>string\<close>; a \<open>char\<close> stands for one code point
  below 256. A Python \<open>int\<close> is an \<open>int\<close>. A Python \<open>float\<close> is modelled as a
  rational with exact arithmetic: every finite float is a rational, the comparisons of the
  source are against integer literals, and the only failure of the float operations that
  the model keeps is the division by zero. The rounding of the float operations, the
  values infinity and not-a-number, and the \<open>OverflowError\<close> of converting an integer
  beyond the float range (about \<open>1.8e308\<close>) are not modelled.
\<close>

datatype py_error =
    ZeroDivisionError
  | NameError string
  | KeyError string
  | TypeError
  | ValueError
  | HTTPException nat string

text \<open>\<open>a / b\<close> on numbers: raises on a zero divisor.\<close>

definition py_truediv :: "rat \<Rightarrow> rat \<Rightarrow> py_error + rat" where
  "py_truediv a b = (if b = 0 then Inl ZeroDivisionError else Inr (a / b))"

text \<open>\<open>round(x)\<close> with one argument: the nearest integer, a tie going to the even one.\<close>

definition py_round :: "rat \<Rightarrow> int" where
  "py_round x =
     (let f = \<lfloor>x\<rfloor>; r = x - of_int f
      in if r < 1 / 2 then f
         else if 1 / 2 < r then f + 1
         else if even f then f else f + 1)"

text \<open>\<open>round(x, 1)\<close>: the nearest multiple of one tenth.\<close>

definition py_round1 :: "rat \<Rightarrow> rat" where
  "py_round1 x = of_int (py_round (x * 10)) / 10"

text \<open>
  \<open>str.lower()\<close> on code points below 256: the letters A to Z and the capital letters of
  the upper half (192 to 222 without the multiplication sign 215) move up by 32.
\<close>

definition lower_char :: "char \<Rightarrow> char" where
  "lower_char c =
     (let n = (of_char c :: nat)
      in if (65 \<le> n \<and> n \<le> 90) \<or> (192 \<le> n \<and> n \<le> 222 \<and> n \<noteq> 215)
         then char_of (n + 32) else c)"

definition lower :: "string \<Rightarrow> string" where
  "lower s = map lower_char s"

text \<open>
  \<open>s.count(sub)\<close>: the occurrences of \<open>sub\<close> found scanning from the left, the scan
  resuming after the end of each occurrence found. An empty \<open>sub\<close> is found between
  all characters.
\<close>

function count_str :: "string \<Rightarrow> string \<Rightarrow> nat" where
  "count_str s sub =
     (if sub = [] then length s + 1
      else if s = [] then 0
      else if prefix sub s then 1 + count_str (drop (length sub) s) sub
      else count_str (tl s) sub)"
  by pat_completeness auto
termination
  by (relation "measure (\<lambda>(s, sub). length s)") auto

declare count_str.simps [simp del]

text \<open>\<open>sub in s\<close> on strings: \<open>sub\<close> starts at some position of \<open>s\<close>.\<close>

fun str_contains :: "string \<Rightarrow> string \<Rightarrow> bool" where
  "str_contains [] sub = (sub = [])"
| "str_contains (c # cs) sub = (prefix sub (c # cs) \<or> str_contains cs sub)"

section \<open>The answer scorer (routers/analyze.py)\<close>

record breakdown =
  length_score :: int
  pace_score :: int
  filler_penalty :: int
  words_per_minute :: rat
  filler_count :: int

record score_result =
  confidence_score :: int
  rating :: string
  breakdown :: breakdown

definition length_score_of :: "int \<Rightarrow> int" where
  "length_score_of word_count =
     (if word_count < 10 then 20
      else if word_count < 30 then 45
      else if word_count < 50 then 65
      else if word_count \<le> 150 then 90
      else if word_count \<le> 250 then 75
      else 55)"

definition wpm_of :: "rat \<Rightarrow> int \<Rightarrow> py_error + rat" where
  "wpm_of duration_seconds word_count =
     (if duration_seconds > 0
      then (case py_truediv (of_int word_count) duration_seconds of
              Inl e \<Rightarrow> Inl e
            | Inr q \<Rightarrow> Inr (q * 60))
      else Inr 0)"

definition pace_score_of :: "rat \<Rightarrow> int" where
  "pace_score_of wpm =
     (if 120 \<le> wpm \<and> wpm \<le> 160 then 100
      else if (90 \<le> wpm \<and> wpm < 120) \<or> (160 < wpm \<and> wpm \<le> 190) then 80
      else if (60 \<le> wpm \<and> wpm < 90) \<or> (190 < wpm \<and> wpm \<le> 220) then 60
      else 40)"

definition filler_words :: "string list" where
  "filler_words =
     [''um'', ''uh'', ''like'', ''you know'', ''basically'', ''literally'', ''actually'',
      ''so so'', ''kinda'']"

definition filler_count_of :: "string \<Rightarrow> int" where
  "filler_count_of transcript =
     sum_list (map (\<lambda>fw. int (count_str (lower transcript) fw)) filler_words)"

definition raw_score_of :: "int \<Rightarrow> int \<Rightarrow> int \<Rightarrow> rat" where
  "raw_score_of ls ps fp = (of_int ls * (1 / 2)) + (of_int ps * (1 / 2)) - of_int fp"

definition rating_of :: "int \<Rightarrow> string" where
  "rating_of final_score =
     (if final_score \<ge> 85 then ''Excellent''
      else if final_score \<ge> 70 then ''Good''
      else if final_score \<ge> 50 then ''Average''
      else ''Needs Improvement'')"

text \<open>Everything \<open>calculate_confidence_score\<close> does once \<open>wpm\<close> is known.\<close>

definition score_with_wpm :: "string \<Rightarrow> int \<Rightarrow> rat \<Rightarrow> score_result" where
  "score_with_wpm transcript word_count wpm =
     (let ls = length_score_of word_count;
          ps = pace_score_of wpm;
          fc = filler_count_of transcript;
          fp = min (fc * 3) 20;
          raw_score = raw_score_of ls ps fp;
          final_score = max 10 (min 100 (py_round raw_score))
      in \<lparr> confidence_score = final_score,
           rating = rating_of final_score,
           breakdown = \<lparr> length_score = ls, pace_score = ps, filler_penalty = fp,
                         words_per_minute = py_round1 wpm, filler_count = fc \<rparr> \<rparr>)"

definition calculate_confidence_score ::
  "string \<Rightarrow> rat \<Rightarrow> int \<Rightarrow> py_error + score_result" where
  "calculate_confidence_score transcript duration_seconds word_count =
     (case wpm_of duration_seconds word_count of
        Inl e \<Rightarrow> Inl e
      | Inr wpm \<Rightarrow> Inr (score_with_wpm transcript word_count wpm))"


subsection \<open>The text endpoint\<close>

text \<open>
  \<open>str.isspace\<close> on one code point below 256: tab to carriage return, the four
  separators 28 to 31, the space, next line (133) and the no-break space (160).
\<close>

definition is_space :: "char \<Rightarrow> bool" where
  "is_space c =
     (let n = (of_char c :: nat)
      in (9 \<le> n \<and> n \<le> 13) \<or> (28 \<le> n \<and> n \<le> 32) \<or> n = 133 \<or> n = 160)"

text \<open>
  \<open>s.split()\<close> without a separator: skip the whitespace, stop at the end of the string,
  otherwise cut the word that runs to the next whitespace and go on behind it.
\<close>

function split_ws :: "string \<Rightarrow> string list" where
  "split_ws s =
     (let rest = dropWhile is_space s
      in if rest = [] then []
         else takeWhile (\<lambda>c. \<not> is_space c) rest
              # split_ws (dropWhile (\<lambda>c. \<not> is_space c) rest))"
  by pat_completeness auto
termination
proof (relation "measure length", simp, goal_cases)
  case (1 s rest)
  then obtain c cs where rest: "rest = c # cs" and c: "\<not> is_space c"
    by (metis dropWhile_eq_Nil_conv hd_dropWhile list.exhaust_sel list.set_sel(1))
  have "length (dropWhile (\<lambda>c. \<not> is_space c) rest) \<le> length cs"
    using rest c by (simp add: length_dropWhile_le)
  also have "length cs < length rest"
    using rest by simp
  also have "length rest \<le> length s"
    using 1 by (simp add: length_dropWhile_le)
  finally show ?case by simp
qed

declare split_ws.simps [simp del]

record analysis = score_result +
  question_index :: int
  transcript :: string
  word_count :: int
  duration_seconds :: rat

definition analyze_text :: "string \<Rightarrow> rat \<Rightarrow> int \<Rightarrow> py_error + analysis" where
  "analyze_text text duration qi =
     (let wc = int (length (split_ws text))
      in case calculate_confidence_score text duration wc of
           Inl e \<Rightarrow> Inl e
         | Inr confidence_data \<Rightarrow>
             Inr \<lparr> confidence_score = confidence_score confidence_data,
                   rating = rating confidence_data,
                   breakdown = breakdown confidence_data,
                   question_index = qi,
                   transcript = text,
                   word_count = wc,
                   duration_seconds = duration \<rparr>)"

subsection \<open>The report endpoint\<close>

text \<open>
  The request body is a list of JSON objects. An object is a map from keys to values; of
  the values, the model keeps the integers, the strings and null.
\<close>

datatype json = JInt int | JStr string | JNull

type_synonym pydict = "string \<rightharpoonup> json"

text \<open>\<open>d[k]\<close>: raises on a missing key.\<close>

definition getitem :: "pydict \<Rightarrow> string \<Rightarrow> py_error + json" where
  "getitem d k = (case d k of None \<Rightarrow> Inl (KeyError k) | Some v \<Rightarrow> Inr v)"

text \<open>
  \<open>s["confidence_score"]\<close> read as a number: the sum and the comparisons of the keys
  raise on a string and on null.
\<close>

definition score_of :: "pydict \<Rightarrow> py_error + int" where
  "score_of s =
     (case getitem s ''confidence_score'' of
        Inl e \<Rightarrow> Inl e
      | Inr (JInt n) \<Rightarrow> Inr n
      | Inr _ \<Rightarrow> Inl TypeError)"

text \<open>\<open>sum(s["confidence_score"] for s in scores)\<close>, from the start value 0.\<close>

fun sum_scores :: "int \<Rightarrow> pydict list \<Rightarrow> py_error + int" where
  "sum_scores acc [] = Inr acc"
| "sum_scores acc (s # ss) =
     (case score_of s of Inl e \<Rightarrow> Inl e | Inr n \<Rightarrow> sum_scores (acc + n) ss)"

text \<open>
  \<open>max(xs, key=f)\<close> and \<open>min(xs, key=f)\<close>: the first item is the candidate, and a later
  item replaces it only when its key is strictly greater (strictly less for \<open>min\<close>).
\<close>

fun max_loop :: "('a \<Rightarrow> py_error + int) \<Rightarrow> 'a \<Rightarrow> int \<Rightarrow> 'a list \<Rightarrow> py_error + 'a" where
  "max_loop key maxitem maxval [] = Inr maxitem"
| "max_loop key maxitem maxval (item # items) =
     (case key item of
        Inl e \<Rightarrow> Inl e
      | Inr val \<Rightarrow> if val > maxval then max_loop key item val items
                  else max_loop key maxitem maxval items)"

definition py_max :: "('a \<Rightarrow> py_error + int) \<Rightarrow> 'a list \<Rightarrow> py_error + 'a" where
  "py_max key xs =
     (case xs of
        [] \<Rightarrow> Inl ValueError
      | x # rest \<Rightarrow> (case key x of Inl e \<Rightarrow> Inl e | Inr v \<Rightarrow> max_loop key x v rest))"

fun min_loop :: "('a \<Rightarrow> py_error + int) \<Rightarrow> 'a \<Rightarrow> int \<Rightarrow> 'a list \<Rightarrow> py_error + 'a" where
  "min_loop key minitem minval [] = Inr minitem"
| "min_loop key minitem minval (item # items) =
     (case key item of
        Inl e \<Rightarrow> Inl e
      | Inr val \<Rightarrow> if val < minval then min_loop key item val items
                  else min_loop key minitem minval items)"

definition py_min :: "('a \<Rightarrow> py_error + int) \<Rightarrow> 'a list \<Rightarrow> py_error + 'a" where
  "py_min key xs =
     (case xs of
        [] \<Rightarrow> Inl ValueError
      | x # rest \<Rightarrow> (case key x of Inl e \<Rightarrow> Inl e | Inr v \<Rightarrow> min_loop key x v rest))"

record answer_ref =
  question_index :: json
  score :: int

record report =
  overall_score :: int
  overall_rating :: string
  summary :: string
  total_questions :: int
  best_answer :: answer_ref
  weakest_answer :: answer_ref
  per_question :: "pydict list"

definition overall_rating_summary :: "int \<Rightarrow> string \<times> string" where
  "overall_rating_summary avg_score =
     (if avg_score \<ge> 85 then
        (''Excellent'',
         ''Outstanding performance! You demonstrated strong communication, clarity, and confidence throughout the interview.'')
      else if avg_score \<ge> 70 then
        (''Good'',
         ''Solid performance overall. You showed good communication skills with some room to improve depth and fluency.'')
      else if avg_score \<ge> 50 then
        (''Average'',
         ''Decent attempt. Focus on reducing filler words, increasing answer depth, and maintaining a steady speaking pace.'')
      else
        (''Needs Improvement'',
         ''Keep practicing! Work on structuring your answers using the STAR method and building confidence in delivery.''))"

definition answer_of :: "pydict \<Rightarrow> py_error + answer_ref" where
  "answer_of s =
     (case getitem s ''question_index'' of
        Inl e \<Rightarrow> Inl e
      | Inr qi \<Rightarrow>
          (case score_of s of
             Inl e \<Rightarrow> Inl e
           | Inr n \<Rightarrow> Inr \<lparr> question_index = qi, score = n \<rparr>))"

definition generate_report :: "pydict list \<Rightarrow> py_error + report" where
  "generate_report scores =
     (if scores = [] then Inl (HTTPException 400 ''No scores provided.'')
      else
        case sum_scores 0 scores of
          Inl e \<Rightarrow> Inl e
        | Inr score_sum \<Rightarrow>
        case py_truediv (of_int score_sum) (of_nat (length scores)) of
          Inl e \<Rightarrow> Inl e
        | Inr mean \<Rightarrow>
        let avg_score = py_round mean;
            (rating_label, summary_text) = overall_rating_summary avg_score
        in
        case py_max score_of scores of
          Inl e \<Rightarrow> Inl e
        | Inr best \<Rightarrow>
        case py_min score_of scores of
          Inl e \<Rightarrow> Inl e
        | Inr worst \<Rightarrow>
        case answer_of best of
          Inl e \<Rightarrow> Inl e
        | Inr best_ref \<Rightarrow>
        case answer_of worst of
          Inl e \<Rightarrow> Inl e
        | Inr worst_ref \<Rightarrow>
          Inr \<lparr> overall_score = avg_score,
                overall_rating = rating_label,
                summary = summary_text,
                total_questions = int (length scores),
                best_answer = best_ref,
                weakest_answer = worst_ref,
                per_question = scores \<rparr>)"


section \<open>The resume analyzer (routers/resume.py)\<close>

definition TECH_SKILLS :: "string list" where
  "TECH_SKILLS =
     [''python'', ''javascript'', ''typescript'', ''java'', ''c++'', ''c#'', ''go'',
      ''rust'', ''ruby'', ''php'', ''swift'', ''kotlin'', ''scala'', ''r'', ''matlab'',
      ''react'', ''vue'', ''angular'', ''next.js'', ''tailwind'', ''html'', ''css'',
      ''sass'', ''redux'', ''graphql'', ''webpack'', ''fastapi'', ''django'', ''flask'',
      ''node.js'', ''express'', ''spring'', ''rails'', ''rest api'', ''microservices'',
      ''pandas'', ''numpy'', ''tensorflow'', ''pytorch'', ''scikit-learn'', ''keras'',
      ''machine learning'', ''deep learning'', ''nlp'', ''computer vision'',
      ''data science'', ''sql'', ''postgresql'', ''mysql'', ''mongodb'', ''redis'',
      ''docker'', ''kubernetes'', ''aws'', ''gcp'', ''azure'', ''ci/cd'', ''jenkins'',
      ''github actions'', ''terraform'', ''linux'', ''git'', ''agile'', ''scrum'',
      ''jira'', ''figma'', ''adobe xd'']"

definition SOFT_SKILLS :: "string list" where
  "SOFT_SKILLS =
     [''leadership'', ''communication'', ''teamwork'', ''problem solving'',
      ''critical thinking'', ''time management'', ''collaboration'', ''mentoring'',
      ''public speaking'', ''project management'']"

record skills =
  technical :: "string list"
  soft :: "string list"
  all :: "string list"

definition extract_skills :: "string \<Rightarrow> skills" where
  "extract_skills text =
     (let text_lower = lower text;
          found_tech = filter (\<lambda>skill. str_contains text_lower skill) TECH_SKILLS;
          found_soft = filter (\<lambda>skill. str_contains text_lower skill) SOFT_SKILLS
      in \<lparr> technical = found_tech, soft = found_soft, all = found_tech @ found_soft \<rparr>)"

text \<open>
  One literal of the table below holds the dash U+2014, which is no code point below 256;
  it is written as the three bytes of its UTF-8 form. No operation looks into that text.
\<close>

definition em_dash :: string where
  "em_dash = [CHR 0xE2, CHR 0x80, CHR 0x94]"

definition skill_questions :: "(string \<times> string) list" where
  "skill_questions =
     [(''python'',
       ''Can you walk me through a Python project where you used advanced features like decorators or async programming?''),
      (''react'',
       ''How have you managed complex state in a large React application?''),
      (''machine learning'',
       ''Describe a machine learning model you built end to end '' @ em_dash
         @ '' from data to deployment.''),
      (''docker'',
       ''How have you used Docker in your development or deployment workflow?''),
      (''sql'',
       ''Can you explain a time you optimized a slow SQL query?''),
      (''aws'',
       ''What AWS services have you used and what were the use cases?''),
      (''leadership'',
       ''Tell me about a time you led a team through a difficult project.''),
      (''typescript'',
       ''How has TypeScript improved the quality of your JavaScript projects?''),
      (''fastapi'',
       ''Describe an API you built with FastAPI. What design decisions did you make?''),
      (''django'',
       ''What's your approach to structuring a Django project for scalability?''),
      (''kubernetes'',
       ''How have you used Kubernetes to manage containerized applications?''),
      (''tensorflow'',
       ''Walk me through a neural network you trained using TensorFlow.''),
      (''communication'',
       ''Give an example of how you communicated a complex technical concept to a non-technical stakeholder.'')]"

record personalized_question =
  skill :: string
  question :: string
  type :: string

text \<open>The body of the loop over \<open>skills[:5]\<close>: append an entry when the skill is a key.\<close>

definition add_skill_question ::
  "personalized_question list \<Rightarrow> string \<Rightarrow> personalized_question list" where
  "add_skill_question questions sk =
     (case map_of skill_questions sk of
        None \<Rightarrow> questions
      | Some q \<Rightarrow> questions @ [\<lparr> skill = sk, question = q, type = ''skill-specific'' \<rparr>])"

definition generate_personalized_questions ::
  "string list \<Rightarrow> string \<Rightarrow> personalized_question list" where
  "generate_personalized_questions skills role =
     (let questions = foldl add_skill_question [] (take 5 skills)
      in questions @
         [\<lparr> skill = ''general'',
            question = ''What excites you most about this '' @ role
                       @ '' role, and what unique value do you bring?'',
            type = ''motivational'' \<rparr>])"

section \<open>The question catalog (routers/interview.py)\<close>

definition DEFAULT_QUESTIONS :: "string list" where
  "DEFAULT_QUESTIONS =
     [''Tell me about yourself and your software engineering background.'',
      ''Describe a challenging technical problem you solved recently.'',
      ''How do you ensure code quality in your projects?'',
      ''Explain the difference between REST and GraphQL APIs.'',
      ''How do you approach system design for a scalable application?'',
      ''Describe your experience with version control and CI/CD pipelines.'',
      ''How do you handle disagreements with your team about technical decisions?'',
      ''Where do you see yourself in 5 years as an engineer?'']"

text \<open>
  The source writes the first list inside the dictionary and binds
  \<open>DEFAULT_QUESTIONS\<close> to \<open>QUESTION_BANK["Software Engineer"]\<close> afterwards; here the
  list is named first and the dictionary refers to it.
\<close>

definition QUESTION_BANK :: "(string \<times> string list) list" where
  "QUESTION_BANK =
     [(''Software Engineer'', DEFAULT_QUESTIONS),
      (''Frontend Developer'',
       [''Tell me about your experience with React or other frontend frameworks.'',
        ''How do you optimize a slow-loading web page?'',
        ''Explain the difference between CSS Grid and Flexbox.'',
        ''How do you handle state management in large applications?'',
        ''Describe a complex UI you've built from scratch.'',
        ''How do you ensure accessibility in your web projects?'',
        ''What is your approach to responsive design?'',
        ''How do you stay up to date with frontend trends?'']),
      (''Data Scientist'',
       [''Walk me through a machine learning project you've worked on.'',
        ''How do you handle missing data in a dataset?'',
        ''Explain the difference between supervised and unsupervised learning.'',
        ''How do you evaluate a model's performance?'',
        ''Describe your experience with Python data libraries like pandas or NumPy.'',
        ''What is overfitting and how do you prevent it?'',
        ''How would you explain a complex model to a non-technical stakeholder?'',
        ''Describe your experience with data visualization.'']),
      (''Product Manager'',
       [''Tell me about a product you successfully launched.'',
        ''How do you prioritize features in a product roadmap?'',
        ''Describe how you gather and analyze user feedback.'',
        ''How do you handle conflicts between engineering and business needs?'',
        ''Walk me through how you define product requirements.'',
        ''How do you measure the success of a product feature?'',
        ''Describe a time you made a data-driven product decision.'',
        ''Where do you see the future of this product going?'']),
      (''DevOps Engineer'',
       [''Describe your experience with containerization tools like Docker or Kubernetes.'',
        ''How do you design a CI/CD pipeline from scratch?'',
        ''What strategies do you use for monitoring and alerting?'',
        ''How do you handle infrastructure as code?'',
        ''Describe a production incident you resolved and how you handled it.'',
        ''How do you ensure security in a cloud environment?'',
        ''What is your approach to disaster recovery planning?'',
        ''How do you balance speed and stability in deployments?''])]"

text \<open>
  The names the module binds at its top level: its two import statements
  (\<open>from fastapi import APIRouter, Query\<close> and \<open>from typing import Optional\<close>), its
  three assignments and its three functions. A name that is read in a function body and
  is neither local nor bound here nor a builtin raises \<open>NameError\<close> when the line runs.
\<close>

definition interview_globals :: "string list" where
  "interview_globals =
     [''APIRouter'', ''Query'', ''Optional'', ''router'', ''QUESTION_BANK'',
      ''DEFAULT_QUESTIONS'', ''get_questions'', ''get_single_question'', ''get_roles'']"

definition load_global :: "string \<Rightarrow> py_error + unit" where
  "load_global name =
     (if name \<in> set interview_globals then Inr () else Inl (NameError name))"

text \<open>\<open>str(n)\<close> of an integer, as the f-string of the error message formats it.\<close>

fun str_nat :: "nat \<Rightarrow> string" where
  "str_nat n =
     (if n < 10 then [char_of (48 + n)]
      else str_nat (n div 10) @ [char_of (48 + n mod 10)])"

declare str_nat.simps [simp del]

definition str_int :: "int \<Rightarrow> string" where
  "str_int i = (if i < 0 then ''-'' @ str_nat (nat (- i)) else str_nat (nat i))"

record question_payload =
  role :: "string option"
  index :: int
  total :: int
  question :: string
  is_last :: bool

text \<open>
  What the handler returns: the dictionary of a question, or the \<open>JSONResponse\<close> with
  its status code and the message of its content \<open>{"error": message}\<close>.
\<close>

datatype single_question_response =
    Payload question_payload
  | JSONResponse nat string

text \<open>\<open>QUESTION_BANK.get(role, DEFAULT_QUESTIONS)\<close>; the query parameter may be absent.\<close>

definition questions_for :: "string option \<Rightarrow> string list" where
  "questions_for r =
     (case r of
        None \<Rightarrow> DEFAULT_QUESTIONS
      | Some name \<Rightarrow>
          (case map_of QUESTION_BANK name of None \<Rightarrow> DEFAULT_QUESTIONS | Some qs \<Rightarrow> qs))"

definition get_single_question ::
  "int \<Rightarrow> string option \<Rightarrow> py_error + single_question_response" where
  "get_single_question i r =
     (let questions = questions_for r;
          n = int (length questions)
      in if i < 0 \<or> i \<ge> n then
           (case load_global ''JSONResponse'' of
              Inl e \<Rightarrow> Inl e
            | Inr _ \<Rightarrow>
                Inr (JSONResponse 404
                      (''Question index '' @ str_int i @ '' out of range. Total: ''
                       @ str_int n)))
         else
           Inr (Payload \<lparr> role = r, index = i, total = n,
                          question = questions ! nat i,
                          is_last = (i = n - 1) \<rparr>))"

section \<open>Notions of the specification\<close>

text \<open>
  The specification speaks of clamping, of a valid Score Result and of the occurrences of
  a phrase in a text. These are written down here from its words, to be compared with
  what the code computes.
\<close>

definition clamp :: "int \<Rightarrow> int \<Rightarrow> int \<Rightarrow> int" where
  "clamp x lo hi = (if x < lo then lo else if hi < x then hi else x)"

definition is_score_result :: "score_result \<Rightarrow> bool" where
  "is_score_result r =
     (10 \<le> confidence_score r \<and> confidence_score r \<le> 100 \<and>
      rating r \<in> {''Excellent'', ''Good'', ''Average'', ''Needs Improvement''})"

text \<open>All occurrences of \<open>sub\<close> in \<open>s\<close>: one for every position where \<open>sub\<close> starts.\<close>

fun occurrences :: "string \<Rightarrow> string \<Rightarrow> nat" where
  "occurrences [] sub = (if sub = [] then 1 else 0)"
| "occurrences (c # cs) sub = (if prefix sub (c # cs) then 1 else 0) + occurrences cs sub"

definition spec_filler_count :: "string \<Rightarrow> int" where
  "spec_filler_count t = sum_list (map (\<lambda>fw. int (occurrences (lower t) fw)) filler_words)"

definition spec_filler_penalty :: "string \<Rightarrow> int" where
  "spec_filler_penalty t = min (3 * spec_filler_count t) 20"

text \<open>
  A phrase is unbordered when none of its proper suffixes starts it again; two occurrences
  of such a phrase cannot overlap.
\<close>

definition unbordered :: "string \<Rightarrow> bool" where
  "unbordered p = (p \<noteq> [] \<and> list_all (\<lambda>k. \<not> prefix (drop k p) p) [1..<length p])"

text \<open>
  The whitespace-delimited tokens of a text: a token starts at every character that is
  not whitespace and stands at the beginning or right after a whitespace character.
\<close>

fun token_starts :: "bool \<Rightarrow> string \<Rightarrow> nat" where
  "token_starts after_space [] = 0"
| "token_starts after_space (c # cs) =
     (if \<not> is_space c \<and> after_space then 1 else 0) + token_starts (is_space c) cs"

definition count_tokens :: "string \<Rightarrow> nat" where
  "count_tokens s = token_starts True s"




text \<open>A score object with the two keys the report reads.\<close>

definition score_object :: "int \<Rightarrow> int \<Rightarrow> pydict" where
  "score_object qi n = [''question_index'' \<mapsto> JInt qi, ''confidence_score'' \<mapsto> JInt n]"

text \<open>
  Two texts are case variants of each other when they have the same length and, position
  by position, characters that lowercase to the same character.
\<close>

definition case_variant :: "string \<Rightarrow> string \<Rightarrow> bool" where
  "case_variant s t = list_all2 (\<lambda>a b. lower_char a = lower_char b) s t"

text \<open>A text with its letters a to z turned into capitals.\<close>

definition upper_ascii_char :: "char \<Rightarrow> char" where
  "upper_ascii_char c =
     (let n = (of_char c :: nat) in if 97 \<le> n \<and> n \<le> 122 then char_of (n - 32) else c)"

section \<open>Properties of the answer scorer\<close>

subsection \<open>Rounding\<close>


lemma py_round_nearest: "\<bar>of_int (py_round x) - x\<bar> \<le> 1 / 2"
  unfolding py_round_def Let_def by (auto simp: abs_if) linarith+

lemma py_round_tie_even: "\<bar>of_int (py_round x) - x\<bar> = 1 / 2 \<Longrightarrow> even (py_round x)"
  unfolding py_round_def Let_def by (auto simp: abs_if split: if_splits) linarith+

lemma py_round_le: "x \<le> of_int n \<Longrightarrow> py_round x \<le> n"
  unfolding py_round_def Let_def by (auto simp: le_floor_iff) linarith+

lemma py_round1_zero: "py_round1 0 = 0"
  by (simp add: py_round1_def py_round_def)

lemma py_round_ties: "py_round (125 / 2) = 62" "py_round (127 / 2) = 64"
  by code_simp+

subsection \<open>The scorer always returns\<close>

lemma ccs_result:
  "\<exists>w. calculate_confidence_score t d wc = Inr (score_with_wpm t wc w)"
  by (auto simp: calculate_confidence_score_def wpm_of_def py_truediv_def)

lemma score_valid: "is_score_result (score_with_wpm t wc w)"
  by (simp add: is_score_result_def score_with_wpm_def Let_def rating_of_def)

lemma filler_count_nonneg: "0 \<le> filler_count_of t"
  unfolding filler_count_of_def by (rule sum_list_nonneg) auto

lemma filler_count_empty: "filler_count_of [] = 0"
  by code_simp

lemma length_score_le: "length_score_of wc \<le> 90"
  by (simp add: length_score_of_def)

lemma score_with_wpm_filler:
  "filler_count (breakdown (score_with_wpm t wc w)) = filler_count_of t"
  "filler_penalty (breakdown (score_with_wpm t wc w)) = min (3 * filler_count_of t) 20"
  by (simp_all add: score_with_wpm_def Let_def mult.commute)

subsection \<open>The final score\<close>

text \<open>
  Claim C1. For every transcript, duration and word count (non-negative or not),
  \<open>calculate_confidence_score\<close> returns a result whose \<open>confidence_score\<close> is
  \<open>clamp(round(0.5 * length_score + 0.5 * pace_score - filler_penalty), 10, 100)\<close>,
  with \<open>round\<close> the rounding of the source (ties to the even integer), and it lies
  between 10 and 100.
\<close>

theorem confidence_score_clamped:
  "\<exists>r. calculate_confidence_score t d wc = Inr r \<and>
     confidence_score r =
       clamp (py_round (1 / 2 * of_int (length_score (breakdown r))
                       + 1 / 2 * of_int (pace_score (breakdown r))
                       - of_int (filler_penalty (breakdown r)))) 10 100 \<and>
     10 \<le> confidence_score r \<and> confidence_score r \<le> 100"
  by (simp add: calculate_confidence_score_def wpm_of_def py_truediv_def score_with_wpm_def
      Let_def raw_score_of_def clamp_def max_def min_def)

subsection \<open>The length bands\<close>

text \<open>
  Claim C4. The \<open>length_score\<close> of the result follows the bands of the word count:
  below 10 it is 20, from 10 to 29 it is 45, from 30 to 49 it is 65, from 50 to 150 it
  is 90, from 151 to 250 it is 75, and above 250 it is 55.
\<close>

theorem length_score_bands:
  "\<exists>r. calculate_confidence_score t d wc = Inr r \<and>
     (wc < 10 \<longrightarrow> length_score (breakdown r) = 20) \<and>
     (10 \<le> wc \<and> wc < 30 \<longrightarrow> length_score (breakdown r) = 45) \<and>
     (30 \<le> wc \<and> wc < 50 \<longrightarrow> length_score (breakdown r) = 65) \<and>
     (50 \<le> wc \<and> wc \<le> 150 \<longrightarrow> length_score (breakdown r) = 90) \<and>
     (151 \<le> wc \<and> wc \<le> 250 \<longrightarrow> length_score (breakdown r) = 75) \<and>
     (250 < wc \<longrightarrow> length_score (breakdown r) = 55)"
proof -
  obtain w where r: "calculate_confidence_score t d wc = Inr (score_with_wpm t wc w)"
    using ccs_result by blast
  have ls: "length_score (breakdown (score_with_wpm t wc w)) = length_score_of wc"
    by (simp add: score_with_wpm_def Let_def)
  show ?thesis
    unfolding r by (rule exI [of _ "score_with_wpm t wc w"]) (simp add: ls length_score_of_def)
qed

theorem length_score_bands_witness:
  "(\<exists>r. calculate_confidence_score ''fine'' 30 9 = Inr r \<and> length_score (breakdown r) = 20) \<and>
   (\<exists>r. calculate_confidence_score ''fine'' 30 10 = Inr r \<and> length_score (breakdown r) = 45) \<and>
   (\<exists>r. calculate_confidence_score ''fine'' 30 29 = Inr r \<and> length_score (breakdown r) = 45) \<and>
   (\<exists>r. calculate_confidence_score ''fine'' 30 30 = Inr r \<and> length_score (breakdown r) = 65) \<and>
   (\<exists>r. calculate_confidence_score ''fine'' 30 49 = Inr r \<and> length_score (breakdown r) = 65) \<and>
   (\<exists>r. calculate_confidence_score ''fine'' 30 50 = Inr r \<and> length_score (breakdown r) = 90) \<and>
   (\<exists>r. calculate_confidence_score ''fine'' 30 150 = Inr r \<and> length_score (breakdown r) = 90) \<and>
   (\<exists>r. calculate_confidence_score ''fine'' 30 151 = Inr r \<and> length_score (breakdown r) = 75) \<and>
   (\<exists>r. calculate_confidence_score ''fine'' 30 250 = Inr r \<and> length_score (breakdown r) = 75) \<and>
   (\<exists>r. calculate_confidence_score ''fine'' 30 251 = Inr r \<and> length_score (breakdown r) = 55)"
proof (intro conjI)
  show "\<exists>r. calculate_confidence_score ''fine'' 30 9 = Inr r \<and> length_score (breakdown r) = 20"
    using length_score_bands [of "''fine''" 30 9] by simp
  show "\<exists>r. calculate_confidence_score ''fine'' 30 10 = Inr r \<and> length_score (breakdown r) = 45"
    using length_score_bands [of "''fine''" 30 10] by simp
  show "\<exists>r. calculate_confidence_score ''fine'' 30 29 = Inr r \<and> length_score (breakdown r) = 45"
    using length_score_bands [of "''fine''" 30 29] by simp
  show "\<exists>r. calculate_confidence_score ''fine'' 30 30 = Inr r \<and> length_score (breakdown r) = 65"
    using length_score_bands [of "''fine''" 30 30] by simp
  show "\<exists>r. calculate_confidence_score ''fine'' 30 49 = Inr r \<and> length_score (breakdown r) = 65"
    using length_score_bands [of "''fine''" 30 49] by simp
  show "\<exists>r. calculate_confidence_score ''fine'' 30 50 = Inr r \<and> length_score (breakdown r) = 90"
    using length_score_bands [of "''fine''" 30 50] by simp
  show "\<exists>r. calculate_confidence_score ''fine'' 30 150 = Inr r \<and> length_score (breakdown r) = 90"
    using length_score_bands [of "''fine''" 30 150] by simp
  show "\<exists>r. calculate_confidence_score ''fine'' 30 151 = Inr r \<and> length_score (breakdown r) = 75"
    using length_score_bands [of "''fine''" 30 151] by simp
  show "\<exists>r. calculate_confidence_score ''fine'' 30 250 = Inr r \<and> length_score (breakdown r) = 75"
    using length_score_bands [of "''fine''" 30 250] by simp
  show "\<exists>r. calculate_confidence_score ''fine'' 30 251 = Inr r \<and> length_score (breakdown r) = 55"
    using length_score_bands [of "''fine''" 30 251] by simp
qed

subsection \<open>Zero duration and empty transcript\<close>

lemma zero_duration_score_le: "confidence_score (score_with_wpm t wc 0) \<le> 65"
proof -
  have fp: "0 \<le> min (filler_count_of t * 3) 20"
    using filler_count_nonneg [of t] by simp
  have "raw_score_of (length_score_of wc) 40 (min (filler_count_of t * 3) 20) \<le> of_int 65"
    using fp length_score_le [of wc] unfolding raw_score_of_def
    by (simp add: of_int_min)
  then have
    "py_round (raw_score_of (length_score_of wc) 40 (min (filler_count_of t * 3) 20)) \<le> 65"
    by (rule py_round_le)
  then show ?thesis
    by (simp add: score_with_wpm_def Let_def pace_score_of_def)
qed

text \<open>
  Claim C5. With \<open>duration_seconds = 0\<close> the scorer does not divide, \<open>wpm\<close> is 0
  without a division having been tried, and it returns a result
  with \<open>words_per_minute = 0\<close> and \<open>pace_score = 40\<close>, a valid Score Result whose score
  is at most 65. With an empty transcript it returns a valid Score Result as well, for
  every duration and word count. On no input does it end in \<open>ZeroDivisionError\<close>.
\<close>

theorem zero_duration_total:
  "wpm_of 0 wc = Inr 0 \<and>
   (\<exists>r. calculate_confidence_score t 0 wc = Inr r \<and>
      words_per_minute (breakdown r) = 0 \<and> pace_score (breakdown r) = 40 \<and>
      is_score_result r \<and> confidence_score r \<le> 65) \<and>
   (\<exists>r. calculate_confidence_score [] d wc = Inr r \<and> is_score_result r \<and>
      filler_count (breakdown r) = 0) \<and>
   calculate_confidence_score t d wc \<noteq> Inl ZeroDivisionError"
proof (intro conjI)
  show "wpm_of 0 wc = Inr 0"
    by (simp add: wpm_of_def)
next
  have "calculate_confidence_score t 0 wc = Inr (score_with_wpm t wc 0)"
    by (simp add: calculate_confidence_score_def wpm_of_def)
  moreover have "words_per_minute (breakdown (score_with_wpm t wc 0)) = 0"
    by (simp add: score_with_wpm_def Let_def py_round1_zero)
  moreover have "pace_score (breakdown (score_with_wpm t wc 0)) = 40"
    by (simp add: score_with_wpm_def Let_def pace_score_of_def)
  ultimately show "\<exists>r. calculate_confidence_score t 0 wc = Inr r \<and>
      words_per_minute (breakdown r) = 0 \<and> pace_score (breakdown r) = 40 \<and>
      is_score_result r \<and> confidence_score r \<le> 65"
    using score_valid zero_duration_score_le by simp
next
  obtain w where "calculate_confidence_score [] d wc = Inr (score_with_wpm [] wc w)"
    using ccs_result by blast
  moreover have "filler_count (breakdown (score_with_wpm [] wc w)) = 0"
    by (simp add: score_with_wpm_filler filler_count_empty)
  ultimately show "\<exists>r. calculate_confidence_score [] d wc = Inr r \<and> is_score_result r \<and>
      filler_count (breakdown r) = 0"
    using score_valid by simp
next
  show "calculate_confidence_score t d wc \<noteq> Inl ZeroDivisionError"
    using ccs_result [of t d wc] by auto
qed

subsection \<open>The worked example\<close>

text \<open>
  Claim C6. For the transcript "um um um", 10 seconds and 20 words the scorer yields
  120 words per minute, pace score 100, length score 45, three fillers, penalty 9, the raw
  score 63.5 rounded to 64, and the rating "Average".
\<close>

theorem example_um_um_um:
  "calculate_confidence_score ''um um um'' 10 20 =
     Inr \<lparr> confidence_score = 64, rating = ''Average'',
           breakdown = \<lparr> length_score = 45, pace_score = 100, filler_penalty = 9,
                         words_per_minute = 120, filler_count = 3 \<rparr> \<rparr> \<and>
   wpm_of 10 20 = Inr 120 \<and>
   raw_score_of 45 100 9 = 127 / 2 \<and>
   py_round (raw_score_of 45 100 9) = 64"
  by code_simp

subsection \<open>The filler penalty\<close>

lemma unbordered_no_overlap:
  assumes u: "unbordered p" and pre: "prefix p s" and k: "0 < k" "k < length p"
  shows "\<not> prefix p (drop k s)"
proof
  assume ov: "prefix p (drop k s)"
  from pre obtain rest where s: "s = p @ rest" by (auto simp: prefix_def)
  have d: "drop k s = drop k p @ rest" using k s by simp
  from ov d obtain z where z: "drop k p @ rest = p @ z" by (auto simp: prefix_def)
  have "length (drop k p) \<le> length p" by simp
  with z have "prefix (drop k p) p"
    by (metis append_eq_append_conv_if prefixI prefix_order.order_refl take_is_prefix)
  moreover have "\<not> prefix (drop k p) p"
    using u k by (auto simp: unbordered_def list_all_iff)
  ultimately show False by simp
qed

lemma occurrences_drop_step:
  "k < length s \<Longrightarrow>
   occurrences (drop k s) p
     = (if prefix p (drop k s) then 1 else 0) + occurrences (drop (Suc k) s) p"
  by (simp flip: Cons_nth_drop_Suc)

lemma occurrences_skip:
  "n \<le> length s \<Longrightarrow> (\<forall>k. 0 < k \<and> k < n \<longrightarrow> \<not> prefix p (drop k s)) \<Longrightarrow> 0 < n \<Longrightarrow>
   occurrences (drop n s) p = occurrences (drop 1 s) p"
proof (induction n)
  case 0
  then show ?case by simp
next
  case (Suc n)
  show ?case
  proof (cases "n = 0")
    case True
    then show ?thesis by simp
  next
    case False
    then have n: "0 < n" "n < length s" using Suc.prems by auto
    have "\<not> prefix p (drop n s)" using Suc.prems n by auto
    then have "occurrences (drop (Suc n) s) p = occurrences (drop n s) p"
      using occurrences_drop_step [OF n(2), of p] by simp
    also have "\<dots> = occurrences (drop 1 s) p"
      using Suc.IH Suc.prems n by auto
    finally show ?thesis .
  qed
qed

lemma occurrences_drop_le: "occurrences (drop n s) p \<le> occurrences s p"
proof (induction s arbitrary: n)
  case Nil
  then show ?case by simp
next
  case (Cons c cs)
  show ?case
  proof (cases n)
    case 0
    then show ?thesis by simp
  next
    case (Suc m)
    then show ?thesis using Cons.IH [of m] by (simp add: le_SucI trans_le_add2)
  qed
qed

lemma occurrences_empty_sub: "occurrences s [] = length s + 1"
  by (induction s) auto

lemma count_str_le_occurrences: "count_str s p \<le> occurrences s p"
proof (induction "length s" arbitrary: s rule: less_induct)
  case less
  show ?case
  proof (cases "p = []")
    case True
    then show ?thesis by (simp add: count_str.simps occurrences_empty_sub)
  next
    case ne: False
    show ?thesis
    proof (cases s)
      case Nil
      then show ?thesis using ne by (simp add: count_str.simps)
    next
      case (Cons c cs)
      show ?thesis
      proof (cases "prefix p s")
        case True
        have len: "0 < length p" using ne by simp
        have "drop (length p) s = drop (length p - 1) cs"
          using Cons len by (cases "length p") auto
        then have "occurrences (drop (length p) s) p \<le> occurrences cs p"
          using occurrences_drop_le by metis
        moreover have "count_str (drop (length p) s) p \<le> occurrences (drop (length p) s) p"
          using less [of "drop (length p) s"] len Cons by simp
        moreover have "count_str s p = 1 + count_str (drop (length p) s) p"
          using ne Cons True by (subst count_str.simps) simp
        moreover have "occurrences s p = 1 + occurrences cs p"
          using Cons True by simp
        ultimately show ?thesis by linarith
      next
        case False
        have "count_str s p = count_str cs p"
          using ne Cons False by (subst count_str.simps) simp
        moreover have "count_str cs p \<le> occurrences cs p"
          using less [of cs] Cons by simp
        ultimately show ?thesis using Cons False by simp
      qed
    qed
  qed
qed

lemma count_str_unbordered:
  assumes u: "unbordered p"
  shows "count_str s p = occurrences s p"
proof (induction "length s" arbitrary: s rule: less_induct)
  case less
  have ne: "p \<noteq> []" using u by (simp add: unbordered_def)
  show ?case
  proof (cases s)
    case Nil
    then show ?thesis using ne by (simp add: count_str.simps)
  next
    case (Cons c cs)
    show ?thesis
    proof (cases "prefix p s")
      case True
      have len: "0 < length p" "length p \<le> length s"
        using ne True by (auto simp: prefix_def)
      have "count_str s p = 1 + count_str (drop (length p) s) p"
        using ne Cons True by (subst count_str.simps) simp
      also have "count_str (drop (length p) s) p = occurrences (drop (length p) s) p"
        using less [of "drop (length p) s"] len Cons by simp
      also have "occurrences (drop (length p) s) p = occurrences (drop 1 s) p"
        using occurrences_skip [OF len(2) _ len(1), of p] unbordered_no_overlap [OF u True]
        by blast
      also have "1 + occurrences (drop 1 s) p = occurrences s p"
        using Cons True by simp
      finally show ?thesis .
    next
      case False
      have "count_str s p = count_str cs p"
        using ne Cons False by (subst count_str.simps) simp
      also have "\<dots> = occurrences cs p"
        using less [of cs] Cons by simp
      finally show ?thesis using Cons False by simp
    qed
  qed
qed

lemma filler_unbordered:
  "unbordered ''um''" "unbordered ''uh''" "unbordered ''like''" "unbordered ''you know''"
  "unbordered ''basically''" "unbordered ''literally''" "unbordered ''actually''"
  "unbordered ''kinda''"
  by code_simp+

lemma so_so_bordered: "\<not> unbordered ''so so''"
  by code_simp

lemma filler_count_characterised:
  "filler_count_of t =
     (\<Sum>fw\<leftarrow>filler_words.
        int (if fw = ''so so'' then count_str (lower t) fw else occurrences (lower t) fw))"
  by (simp add: filler_count_of_def filler_words_def count_str_unbordered filler_unbordered)

lemma filler_count_le_spec: "filler_count_of t \<le> spec_filler_count t"
  unfolding filler_count_of_def spec_filler_count_def
  by (rule sum_list_mono) (simp add: count_str_le_occurrences)

text \<open>
  Claim C2, as stated: the penalty is \<open>min(3 * n, 20)\<close> with \<open>n\<close> the number of all
  occurrences of the nine phrases in the lowercased transcript, overlapping ones
  included. The transcript "so so so" holds the phrase "so so" twice, at positions 0 and
  3; the scorer counts one occurrence and takes 3 points where the claim asks for 6.
\<close>

theorem filler_penalty_overlap_counterexample:
  "calculate_confidence_score ''so so so'' 30 3 =
     Inr \<lparr> confidence_score = 27, rating = ''Needs Improvement'',
           breakdown = \<lparr> length_score = 20, pace_score = 40, filler_penalty = 3,
                         words_per_minute = 6, filler_count = 1 \<rparr> \<rparr> \<and>
   spec_filler_count ''so so so'' = 2 \<and>
   spec_filler_penalty ''so so so'' = 6"
  by code_simp

text \<open>
  Claim C2, amended. The penalty is \<open>min(3 * n, 20)\<close>, where \<open>n\<close> adds up, over the nine
  phrases, the occurrences in the lowercased transcript as the left-to-right scan of
  \<open>str.count\<close> finds them, resuming after each occurrence found. For the eight phrases
  other than "so so" these are all the occurrences; for "so so" they are the ones that do
  not overlap an occurrence counted before. The penalty lies between 0 and 20, never
  exceeds the penalty of the claim as stated, and does not decrease when \<open>n\<close> grows.
\<close>

theorem filler_penalty_nonoverlapping:
  "\<exists>r. calculate_confidence_score t d wc = Inr r \<and>
     filler_count (breakdown r) =
       (\<Sum>fw\<leftarrow>filler_words.
          int (if fw = ''so so'' then count_str (lower t) fw else occurrences (lower t) fw)) \<and>
     filler_penalty (breakdown r) = min (3 * filler_count (breakdown r)) 20 \<and>
     0 \<le> filler_penalty (breakdown r) \<and>
     filler_penalty (breakdown r) \<le> 20 \<and>
     filler_penalty (breakdown r) \<le> spec_filler_penalty t \<and>
     (\<forall>t' d' wc' r'.
        calculate_confidence_score t' d' wc' = Inr r' \<and>
        filler_count (breakdown r) \<le> filler_count (breakdown r') \<longrightarrow>
        filler_penalty (breakdown r) \<le> filler_penalty (breakdown r'))"
proof -
  obtain w where r: "calculate_confidence_score t d wc = Inr (score_with_wpm t wc w)"
    using ccs_result by blast
  have mono: "filler_penalty (breakdown (score_with_wpm t wc w)) \<le> filler_penalty (breakdown r')"
    if run: "calculate_confidence_score t' d' wc' = Inr r'"
      and le: "filler_count (breakdown (score_with_wpm t wc w)) \<le> filler_count (breakdown r')"
    for t' d' wc' r'
  proof -
    have "\<exists>w'. r' = score_with_wpm t' wc' w'"
      using run ccs_result [of t' d' wc'] by auto
    then show ?thesis using le by (auto simp: score_with_wpm_filler)
  qed
  show ?thesis
    apply (rule exI [of _ "score_with_wpm t wc w"])
    apply (intro conjI)
          apply (rule r)
         apply (simp add: score_with_wpm_filler filler_count_characterised)
        apply (simp add: score_with_wpm_filler)
       apply (simp add: score_with_wpm_filler filler_count_nonneg)
      apply (simp add: score_with_wpm_filler)
     apply (use filler_count_le_spec [of t] in
        \<open>simp add: score_with_wpm_filler spec_filler_penalty_def\<close>)
    apply (use mono in blast)
    done
qed

lemma so_so_so_counts:
  "(\<Sum>fw\<leftarrow>filler_words.
      int (if fw = ''so so'' then count_str (lower ''so so so'') fw
           else occurrences (lower ''so so so'') fw)) = 1"
  by code_simp

theorem filler_penalty_nonoverlapping_witness:
  "\<exists>r. calculate_confidence_score ''so so so'' 30 3 = Inr r \<and>
     filler_count (breakdown r) = 1 \<and> filler_penalty (breakdown r) = 3"
  using filler_penalty_nonoverlapping [of "''so so so''" 30 3] unfolding so_so_so_counts
  by auto

section \<open>Properties of the text endpoint\<close>

lemma token_starts_skip_space:
  "token_starts True (dropWhile is_space s) = token_starts True s"
  by (induction s) auto

lemma token_starts_skip_word:
  "token_starts True (dropWhile (\<lambda>c. \<not> is_space c) s) = token_starts False s"
  by (induction s) auto

lemma split_ws_Nil: "dropWhile is_space s = [] \<Longrightarrow> split_ws s = []"
  by (subst split_ws.simps) simp

lemma split_ws_Cons:
  "dropWhile is_space s = c # cs \<Longrightarrow>
   split_ws s = takeWhile (\<lambda>c. \<not> is_space c) (c # cs)
                # split_ws (dropWhile (\<lambda>c. \<not> is_space c) (c # cs))"
  by (subst split_ws.simps) simp

lemma length_split_ws: "length (split_ws s) = count_tokens s"
proof (induction "length s" arbitrary: s rule: less_induct)
  case less
  show ?case
  proof (cases "dropWhile is_space s")
    case Nil
    have "token_starts True s = token_starts True (dropWhile is_space s)"
      by (simp only: token_starts_skip_space)
    also have "\<dots> = 0"
      by (simp only: Nil token_starts.simps)
    finally have "token_starts True s = 0" .
    then show ?thesis using Nil by (simp add: split_ws_Nil count_tokens_def)
  next
    case (Cons c cs)
    then have c: "\<not> is_space c"
      by (metis hd_dropWhile list.distinct(1) list.sel(1))
    let ?rest = "dropWhile (\<lambda>c. \<not> is_space c) (c # cs)"
    have "length ?rest \<le> length cs"
      using c by (simp add: length_dropWhile_le)
    moreover have "length (c # cs) \<le> length s"
      using Cons length_dropWhile_le [of is_space s] by simp
    ultimately have "length ?rest < length s" by simp
    then have IH: "length (split_ws ?rest) = count_tokens ?rest"
      by (rule less)
    have "count_tokens s = token_starts True (c # cs)"
      using Cons token_starts_skip_space [of s] by (simp add: count_tokens_def)
    also have "\<dots> = 1 + token_starts False cs"
      using c by simp
    also have "token_starts False cs = count_tokens ?rest"
      using c token_starts_skip_word [of cs] by (simp add: count_tokens_def)
    finally show ?thesis
      using IH by (simp add: split_ws_Cons [OF Cons])
  qed
qed

lemma split_ws_tokens:
  "w \<in> set (split_ws s) \<Longrightarrow> w \<noteq> [] \<and> (\<forall>c \<in> set w. \<not> is_space c)"
proof (induction "length s" arbitrary: s rule: less_induct)
  case less
  show ?case
  proof (cases "dropWhile is_space s")
    case Nil
    then show ?thesis using less.prems by (simp add: split_ws_Nil)
  next
    case (Cons c cs)
    then have c: "\<not> is_space c"
      by (metis hd_dropWhile list.distinct(1) list.sel(1))
    let ?rest = "dropWhile (\<lambda>c. \<not> is_space c) (c # cs)"
    have "length ?rest \<le> length cs"
      using c by (simp add: length_dropWhile_le)
    moreover have "length (c # cs) \<le> length s"
      using Cons length_dropWhile_le [of is_space s] by simp
    ultimately have lt: "length ?rest < length s" by simp
    from less.prems consider "w = takeWhile (\<lambda>c. \<not> is_space c) (c # cs)" | "w \<in> set (split_ws ?rest)"
      by (auto simp: split_ws_Cons [OF Cons])
    then show ?thesis
    proof cases
      case 1
      then show ?thesis using c by (auto dest: set_takeWhileD)
    next
      case 2
      then show ?thesis using less.hyps [OF lt] by blast
    qed
  qed
qed

lemma concat_split_ws: "concat (split_ws s) = filter (\<lambda>c. \<not> is_space c) s"
proof (induction "length s" arbitrary: s rule: less_induct)
  case less
  have drop_filter: "filter (\<lambda>c. \<not> is_space c) (dropWhile is_space s) = filter (\<lambda>c. \<not> is_space c) s" for s
    by (induction s) auto
  have split_filter: "takeWhile P xs @ filter P (dropWhile P xs) = filter P xs" for P and xs :: string
    by (induction xs) auto
  show ?case
  proof (cases "dropWhile is_space s")
    case Nil
    then show ?thesis using drop_filter [of s] by (simp add: split_ws_Nil)
  next
    case (Cons c cs)
    then have c: "\<not> is_space c"
      by (metis hd_dropWhile list.distinct(1) list.sel(1))
    let ?rest = "dropWhile (\<lambda>c. \<not> is_space c) (c # cs)"
    have "length ?rest \<le> length cs"
      using c by (simp add: length_dropWhile_le)
    moreover have "length (c # cs) \<le> length s"
      using Cons length_dropWhile_le [of is_space s] by simp
    ultimately have lt: "length ?rest < length s" by simp
    have "concat (split_ws s) = takeWhile (\<lambda>c. \<not> is_space c) (c # cs) @ filter (\<lambda>c. \<not> is_space c) ?rest"
      using less.hyps [OF lt] by (simp add: split_ws_Cons [OF Cons])
    also have "\<dots> = filter (\<lambda>c. \<not> is_space c) (c # cs)"
      by (rule split_filter)
    also have "\<dots> = filter (\<lambda>c. \<not> is_space c) s"
      using drop_filter [of s] Cons by simp
    finally show ?thesis .
  qed
qed

lemma count_tokens_whitespace: "\<forall>c \<in> set s. is_space c \<Longrightarrow> count_tokens s = 0"
  unfolding count_tokens_def by (induction s) auto

text \<open>
  Claim C10. The text endpoint scores with, and echoes as \<open>word_count\<close>, the number of
  whitespace-delimited tokens of the transcript: runs of whitespace count once, whitespace
  at either end counts for nothing, and a transcript of whitespace only has 0 words.
\<close>

theorem analyze_text_word_count:
  "\<exists>r sr. analyze_text t d qi = Inr r \<and>
     word_count r = int (count_tokens t) \<and>
     transcript r = t \<and>
     calculate_confidence_score t d (int (count_tokens t)) = Inr sr \<and>
     confidence_score r = confidence_score sr \<and> rating r = rating sr \<and>
     breakdown r = breakdown sr \<and>
     ((\<forall>c \<in> set t. is_space c) \<longrightarrow> word_count r = 0)"
proof -
  obtain w where sr: "calculate_confidence_score t d (int (count_tokens t))
      = Inr (score_with_wpm t (int (count_tokens t)) w)"
    using ccs_result by blast
  show ?thesis
    using sr count_tokens_whitespace [of t]
    by (simp add: analyze_text_def Let_def length_split_ws)
qed

lemma count_tokens_examples:
  "count_tokens ''  tell me   about    it '' = 4"
  "count_tokens [CHR 0x20, CHR 0x09, CHR 0x0A] = 0"
  by code_simp+

lemma split_ws_example:
  "split_ws ''  tell me   about    it '' = [''tell'', ''me'', ''about'', ''it'']"
  by code_simp

theorem analyze_text_word_count_witness:
  "list_all is_space [CHR 0x20, CHR 0x09, CHR 0x0A] \<and>
   (\<exists>r. analyze_text [CHR 0x20, CHR 0x09, CHR 0x0A] 30 0 = Inr r \<and> word_count r = 0) \<and>
   (\<exists>r. analyze_text ''  tell me   about    it '' 30 0 = Inr r \<and> word_count r = 4)"
proof (intro conjI)
  show ws: "list_all is_space [CHR 0x20, CHR 0x09, CHR 0x0A]"
    by code_simp
  then have "\<forall>c \<in> set [CHR 0x20, CHR 0x09, CHR 0x0A]. is_space c"
    by (simp only: list_all_iff)
  then show "\<exists>r. analyze_text [CHR 0x20, CHR 0x09, CHR 0x0A] 30 0 = Inr r \<and> word_count r = 0"
    using analyze_text_word_count [of "[CHR 0x20, CHR 0x09, CHR 0x0A]" 30 0] by auto
  show "\<exists>r. analyze_text ''  tell me   about    it '' 30 0 = Inr r \<and> word_count r = 4"
    using analyze_text_word_count [of "''  tell me   about    it ''" 30 0]
    unfolding count_tokens_examples by auto
qed

section \<open>Properties of the report endpoint\<close>





























lemma py_round_example: "py_round (291 / 4) = 73"
  by code_simp

lemma report_example:
  "case generate_report
          [score_object 0 64, score_object 1 82, score_object 2 82, score_object 3 63] of
     Inl e \<Rightarrow> False
   | Inr r \<Rightarrow>
       overall_score r = 73 \<and> overall_rating r = ''Good'' \<and> total_questions r = 4 \<and>
       best_answer r = \<lparr> question_index = JInt 1, score = 82 \<rparr> \<and>
       weakest_answer r = \<lparr> question_index = JInt 3, score = 63 \<rparr>"
  by (simp add: generate_report_def score_object_def score_of_def getitem_def py_truediv_def
      py_max_def py_min_def answer_of_def overall_rating_summary_def py_round_example Let_def)

lemma py_round_half: "py_round (21 / 2) = 10"
  by code_simp

lemma report_tie_example:
  "case generate_report [score_object 0 10, score_object 1 11] of
     Inl e \<Rightarrow> False
   | Inr r \<Rightarrow> overall_score r = 10"
  by (simp add: generate_report_def score_object_def score_of_def getitem_def py_truediv_def
      py_max_def py_min_def answer_of_def overall_rating_summary_def py_round_half Let_def)

section \<open>Properties of the resume analyzer\<close>

lemma str_contains_sublist: "str_contains s sub \<longleftrightarrow> sublist sub s"
  by (induction s) (auto simp: sublist_Cons_right)

lemma case_variant_lower: "case_variant s t \<Longrightarrow> lower s = lower t"
  unfolding case_variant_def lower_def
  by (induction s t rule: list_all2_induct) auto

lemma lower_char_idem: "lower_char (lower_char c) = lower_char c"
  unfolding lower_char_def Let_def by (auto simp: mod_if)

lemma case_variant_of_lower: "case_variant (lower s) s"
  unfolding case_variant_def lower_def
  by (induction s) (auto simp: lower_char_idem)

lemma lower_idem: "lower (lower s) = lower s"
  unfolding lower_def by (induction s) (simp_all add: lower_char_idem)

lemma extract_skills_lower: "extract_skills (lower s) = extract_skills s"
  by (simp add: extract_skills_def lower_idem)

lemma lower_upper_ascii_char: "lower_char (upper_ascii_char c) = lower_char c"
  unfolding lower_char_def upper_ascii_char_def Let_def by (auto simp: mod_if)

lemma case_variant_upper_ascii: "case_variant (map upper_ascii_char s) s"
  unfolding case_variant_def
  by (induction s) (auto simp: lower_upper_ascii_char)

lemma extract_skills_upper_ascii:
  "extract_skills (map upper_ascii_char s) = extract_skills s"
  using case_variant_lower [OF case_variant_upper_ascii] by (simp add: extract_skills_def)

text \<open>
  Claim C8. \<open>extract_skills\<close> gives the same result for two texts that differ only in
  the case of their letters. A skill of a vocabulary is in the result exactly when it is a
  substring of the lowercased text, and each result list is the vocabulary with the
  skills not found left out, so it keeps the order of the vocabulary whatever the order
  of the skills in the text.
\<close>

theorem extract_skills_case_insensitive:
  "(case_variant s t \<longrightarrow> extract_skills s = extract_skills t) \<and>
   technical (extract_skills s) = filter (\<lambda>skill. sublist skill (lower s)) TECH_SKILLS \<and>
   soft (extract_skills s) = filter (\<lambda>skill. sublist skill (lower s)) SOFT_SKILLS \<and>
   all (extract_skills s) = technical (extract_skills s) @ soft (extract_skills s) \<and>
   (\<forall>skill. skill \<in> set (technical (extract_skills s))
        \<longleftrightarrow> skill \<in> set TECH_SKILLS \<and> sublist skill (lower s)) \<and>
   (\<forall>skill. skill \<in> set (soft (extract_skills s))
        \<longleftrightarrow> skill \<in> set SOFT_SKILLS \<and> sublist skill (lower s)) \<and>
   subseq (technical (extract_skills s)) TECH_SKILLS \<and>
   subseq (soft (extract_skills s)) SOFT_SKILLS"
proof -
  have tech: "technical (extract_skills s) = filter (\<lambda>skill. sublist skill (lower s)) TECH_SKILLS"
    and soft: "soft (extract_skills s) = filter (\<lambda>skill. sublist skill (lower s)) SOFT_SKILLS"
    and all: "all (extract_skills s) = technical (extract_skills s) @ soft (extract_skills s)"
    by (simp_all add: extract_skills_def Let_def str_contains_sublist)
  have cv: "extract_skills s = extract_skills t" if "case_variant s t"
    using case_variant_lower [OF that] by (simp add: extract_skills_def)
  show ?thesis
    using cv all by (auto simp: tech soft)
qed

lemma skills_examples:
  "lower ''Python, REACT'' = ''python, react''"
  "technical (extract_skills ''python, react'') = [''python'', ''r'', ''react'']"
  "technical (extract_skills ''react, python'') = [''python'', ''r'', ''react'']"
  "soft (extract_skills ''python, react'') = []"
  by code_simp+

lemma variant_example: "case_variant ''Python, REACT'' ''python, react''"
  by code_simp

theorem extract_skills_case_insensitive_witness:
  "case_variant ''Python, REACT'' ''python, react'' \<and>
   extract_skills ''Python, REACT'' = extract_skills ''python, react'' \<and>
   technical (extract_skills ''Python, REACT'') = [''python'', ''r'', ''react'']"
proof -
  have "extract_skills ''Python, REACT'' = extract_skills ''python, react''"
    using extract_skills_case_insensitive [of "''Python, REACT''" "''python, react''"]
      variant_example by blast
  then show ?thesis
    using variant_example skills_examples(2) by simp
qed

lemma foldl_add_skill_question:
  "foldl add_skill_question acc xs =
     acc @ List.map_filter
             (\<lambda>sk. map_option (\<lambda>q. \<lparr> skill = sk, personalized_question.question = q, type = ''skill-specific'' \<rparr>)
                     (map_of skill_questions sk)) xs"
  by (induction xs arbitrary: acc)
     (auto simp: add_skill_question_def List.map_filter_simps split: option.splits)

lemma length_map_filter_le: "length (List.map_filter f xs) \<le> length xs"
  by (induction xs) (auto simp: List.map_filter_simps split: option.splits)

lemma skill_map_filter:
  "map skill (List.map_filter
       (\<lambda>sk. map_option (\<lambda>q. \<lparr> skill = sk, personalized_question.question = q, type = ''skill-specific'' \<rparr>) (m sk)) xs)
     = filter (\<lambda>sk. m sk \<noteq> None) xs"
  by (induction xs) (auto simp: List.map_filter_simps split: option.splits)

text \<open>
  Claim C9. \<open>generate_personalized_questions\<close> looks up the first five skills of its
  input only. The result holds one skill-specific entry for each of them that is a key of
  the question table, in the order of the input, with the question of the table, and
  nothing for the others; its last entry is the motivational question, which quotes the
  role. So the result has between one and six entries.
\<close>

theorem generate_personalized_questions_shape:
  "generate_personalized_questions sks r =
     List.map_filter
       (\<lambda>sk. map_option
                (\<lambda>q. \<lparr> skill = sk, personalized_question.question = q,
                       type = ''skill-specific'' \<rparr>)
                (map_of skill_questions sk))
       (take 5 sks)
     @ [\<lparr> skill = ''general'',
          personalized_question.question =
            ''What excites you most about this '' @ r
            @ '' role, and what unique value do you bring?'',
          type = ''motivational'' \<rparr>] \<and>
   map skill (butlast (generate_personalized_questions sks r))
     = filter (\<lambda>sk. map_of skill_questions sk \<noteq> None) (take 5 sks) \<and>
   list_all (\<lambda>q. type q = ''skill-specific'' \<and>
                  map_of skill_questions (skill q) = Some (personalized_question.question q))
     (butlast (generate_personalized_questions sks r)) \<and>
   skill (last (generate_personalized_questions sks r)) = ''general'' \<and>
   type (last (generate_personalized_questions sks r)) = ''motivational'' \<and>
   sublist r (personalized_question.question (last (generate_personalized_questions sks r))) \<and>
   1 \<le> length (generate_personalized_questions sks r) \<and>
   length (generate_personalized_questions sks r) \<le> 6 \<and>
   generate_personalized_questions sks r \<noteq> []"
proof -
  let ?entry = "\<lambda>sk. map_option
                (\<lambda>q. \<lparr> skill = sk, personalized_question.question = q,
                       type = ''skill-specific'' \<rparr>)
                (map_of skill_questions sk)"
  let ?general = "\<lparr> skill = ''general'',
          personalized_question.question =
            ''What excites you most about this '' @ r
            @ '' role, and what unique value do you bring?'',
          type = ''motivational'' \<rparr>"
  have eq: "generate_personalized_questions sks r
      = List.map_filter ?entry (take 5 sks) @ [?general]"
    by (simp add: generate_personalized_questions_def Let_def foldl_add_skill_question)
  have len: "length (List.map_filter ?entry (take 5 sks)) \<le> 5"
    using length_map_filter_le [of ?entry "take 5 sks"] by simp
  have entries: "list_all (\<lambda>q. type q = ''skill-specific'' \<and>
        map_of skill_questions (skill q) = Some (personalized_question.question q))
      (List.map_filter ?entry xs)" for xs
    by (induction xs) (auto simp: List.map_filter_simps split: option.splits)
  have sub: "sublist r (''What excites you most about this '' @ r
            @ '' role, and what unique value do you bring?'')"
    unfolding sublist_def by blast
  show ?thesis
    unfolding eq using len entries sub
    by (simp add: skill_map_filter del: append.simps)
qed

lemma questions_example:
  "map skill (generate_personalized_questions
       [''python'', ''r'', ''react'', ''css'', ''sql'', ''aws'', ''docker''] ''Data Scientist'')
     = [''python'', ''react'', ''sql'', ''general'']"
  "map skill (generate_personalized_questions [] ''Data Scientist'') = [''general'']"
  "map skill (generate_personalized_questions
       [''go'', ''rust'', ''ruby'', ''php'', ''swift'', ''python''] ''Data Scientist'')
     = [''general'']"
  by code_simp+

section \<open>Properties of the question catalog\<close>

lemma JSONResponse_unbound: "load_global ''JSONResponse'' = Inl (NameError ''JSONResponse'')"
  by (simp add: load_global_def interview_globals_def)

lemma default_in_bank: "map_of QUESTION_BANK ''Software Engineer'' = Some DEFAULT_QUESTIONS"
  by (simp add: QUESTION_BANK_def)

lemma bank_lengths: "\<forall>(name, qs) \<in> set QUESTION_BANK. length qs = 8"
  by (simp add: QUESTION_BANK_def DEFAULT_QUESTIONS_def)

lemma questions_for_length: "length (questions_for r) = 8"
proof (cases r)
  case None
  then show ?thesis by (simp add: questions_for_def DEFAULT_QUESTIONS_def)
next
  case (Some name)
  show ?thesis
  proof (cases "map_of QUESTION_BANK name")
    case None
    then show ?thesis using Some by (simp add: questions_for_def DEFAULT_QUESTIONS_def)
  next
    case (Some qs)
    then have "(name, qs) \<in> set QUESTION_BANK" by (rule map_of_SomeD)
    then have "length qs = 8" using bank_lengths by blast
    then show ?thesis using Some \<open>r = Some name\<close> by (simp add: questions_for_def)
  qed
qed

lemma get_single_question_out_of_range:
  "i < 0 \<or> i \<ge> int (length (questions_for r)) \<Longrightarrow>
   get_single_question i r = Inl (NameError ''JSONResponse'')"
  by (simp add: get_single_question_def Let_def JSONResponse_unbound)

lemma get_single_question_in_range:
  "0 \<le> i \<Longrightarrow> i < int (length (questions_for r)) \<Longrightarrow>
   get_single_question i r =
     Inr (Payload \<lparr> role = r, index = i, total = int (length (questions_for r)),
                    question = questions_for r ! nat i,
                    is_last = (i = int (length (questions_for r)) - 1) \<rparr>)"
  by (simp add: get_single_question_def Let_def)

text \<open>
  Claim C3. For an index outside the question list the operation is claimed to answer with
  a 404 response that carries the message "index out of range" and the total. The branch
  of the source builds that response by calling \<open>JSONResponse\<close>, a name the module
  never imports; reading the name raises \<open>NameError\<close> before any response exists.
  With eight questions for every role, the indices 8 and -1 end this way.
\<close>

theorem get_single_question_index_8:
  "get_single_question 8 (Some ''Software Engineer'') = Inl (NameError ''JSONResponse'') \<and>
   get_single_question (- 1) (Some ''Software Engineer'') = Inl (NameError ''JSONResponse'') \<and>
   get_single_question 8 None = Inl (NameError ''JSONResponse'') \<and>
   length (questions_for (Some ''Software Engineer'')) = 8"
  by (simp add: get_single_question_out_of_range questions_for_length)

lemma unknown_role_example:
  "get_single_question 0 (Some ''Unknown Role'') =
     Inr (Payload \<lparr> role = Some ''Unknown Role'', index = 0, total = 8,
            question = ''Tell me about yourself and your software engineering background.'',
            is_last = False \<rparr>)"
  by (simp add: get_single_question_def questions_for_def QUESTION_BANK_def
      DEFAULT_QUESTIONS_def Let_def)

lemma str_int_examples:
  "str_int 8 = ''8''" "str_int (- 12) = ''-12''" "str_int 0 = ''0''" "str_int 1305 = ''1305''"
  by code_simp+

end
